theory Spec2Isabelle
  imports Complex_Main
begin

section \<open>Data model\<close>

text \<open>
  The embedding follows \<^verbatim>\<open>models/Booking.js\<close>, the listing schema,
  \<^verbatim>\<open>routes/bookings.js\<close> and \<^verbatim>\<open>routes/listings.js\<close>.

  Conventions of the model:
  \<^item> an ObjectId is a natural number; a caller is identified by the id the access-control
    gate attached to the request (\<^verbatim>\<open>req.user.userId\<close>);
  \<^item> a JavaScript \<^verbatim>\<open>Date\<close> is its time value, an integer number of milliseconds since
    the epoch; an Invalid Date (time value NaN) is \<open>None\<close>, and every comparison with it
    is false, as in JavaScript;
  \<^item> a JavaScript \<^verbatim>\<open>Number\<close> that holds money or an average is an exact rational: the
    rounding of IEEE doubles is not modelled;
  \<^item> a request is handled at one instant \<open>now\<close>: every \<^verbatim>\<open>new Date()\<close> of one request
    reads the same clock value;
  \<^item> a collection of the database is the list of its documents; the fields of a document
    that no modelled operation reads (titles, images, payment intent, ...) are left out,
    and \<^verbatim>\<open>populate\<close> joins are not performed on returned documents.
\<close>

type_synonym object_id = nat
type_synonym date = int

datatype booking_status = Pending | Confirmed | Cancelled | Completed

datatype payment_status = PaymentPending | Paid | Refunded | Failed

record review =
  rating :: int
  comment :: string
  reviewDate :: date

record guest_counts =
  adults :: int
  children :: int
  infants :: int

record booking =
  booking_id :: object_id
  listing :: object_id
  guest :: object_id
  checkIn :: date
  checkOut :: date
  guests :: guest_counts
  totalAmount :: rat
  status :: booking_status
  paymentStatus :: payment_status
  specialRequests :: "string option"
  cancellationReason :: "string option"
  review :: "review option"
  createdAt :: date

text \<open>
  The aggregate rating of a listing. The count starts at the schema default 0 and the
  review operation only ever adds 1 to it, so it is a natural number here.
\<close>

record rating_summary =
  average :: rat
  count :: nat

record listing_doc =
  listing_id :: object_id
  price :: rat
  city :: string
  propertyType :: string
  maxGuests :: int
  host :: object_id
  listing_rating :: rating_summary
  isActive :: bool
  listing_createdAt :: date

record store =
  bookings :: "booking list"
  listings :: "listing_doc list"

text \<open>
  The environment of one request: the clock, the offset of the server's time zone from
  UTC in milliseconds (what \<^verbatim>\<open>setHours(0, 0, 0, 0)\<close> depends on), and the ObjectId the
  driver generates for a new document.
\<close>

record env =
  now :: date
  tzOffset :: int
  freshId :: object_id

datatype error =
    ValidationFailed "string list"
  | BadRequest string
  | Forbidden string
  | NotFound string
  | ServerError string

text \<open>
  A field of a request body or query string: not sent, sent with a value the field's
  type validator rejects (\<^verbatim>\<open>isInt\<close>, \<^verbatim>\<open>isNumeric\<close>, \<^verbatim>\<open>isMongoId\<close>), or sent with a value of
  the type.
\<close>

datatype 'a field = Absent | Malformed | Val 'a

text \<open>
  A date field of a request body: whether the text passes \<^verbatim>\<open>isISO8601\<close>, and what
  \<^verbatim>\<open>new Date(value)\<close> makes of it.
\<close>

record date_field =
  isISO8601 :: bool
  parsed :: "date option"

section \<open>Time\<close>

definition msPerDay :: int where
  "msPerDay = 1000 * 60 * 60 * 24"

text \<open>\<^verbatim>\<open>const today = new Date(); today.setHours(0, 0, 0, 0)\<close>: local midnight.\<close>

definition startOfDay :: "env \<Rightarrow> date" where
  "startOfDay e = now e - ((now e + tzOffset e) mod msPerDay)"

section \<open>Persistence of bookings\<close>

definition findListing :: "store \<Rightarrow> object_id \<Rightarrow> listing_doc option" where
  "findListing s i = find (\<lambda>l. listing_id l = i) (listings s)"

definition findBooking :: "store \<Rightarrow> object_id \<Rightarrow> booking option" where
  "findBooking s i = find (\<lambda>b. booking_id b = i) (bookings s)"

text \<open>
  \<^verbatim>\<open>bookingSchema.pre('save')\<close>. The hook calls \<^verbatim>\<open>next\<close> up to three times; the
  middleware runner honours the first call only, so the error of the first failing test
  is the one raised.
\<close>

definition pre_save :: "env \<Rightarrow> booking \<Rightarrow> string option" where
  "pre_save e b =
     (if checkIn b \<ge> checkOut b then Some ''Check-out date must be after check-in date''
      else if checkIn b < startOfDay e then Some ''Check-in date cannot be in the past''
      else None)"

text \<open>The validators of the schema's paths that a new booking can violate.\<close>

definition schema_valid :: "booking \<Rightarrow> bool" where
  "schema_valid b \<longleftrightarrow>
     adults (guests b) \<ge> 1 \<and> children (guests b) \<ge> 0 \<and> infants (guests b) \<ge> 0 \<and>
     totalAmount b \<ge> 0 \<and>
     (case specialRequests b of None \<Rightarrow> True | Some t \<Rightarrow> length t \<le> 500)"

text \<open>
  \<^verbatim>\<open>booking.save()\<close> of a new document: schema validation, then the pre-save hook, then
  the insert, which the database refuses for an id already in use. \<open>None\<close> is a thrown
  error.
\<close>

definition save_new :: "env \<Rightarrow> store \<Rightarrow> booking \<Rightarrow> store option" where
  "save_new e s b =
     (if \<not> schema_valid b then None
      else if pre_save e b \<noteq> None then None
      else if booking_id b \<in> set (map booking_id (bookings s)) then None
      else Some (s\<lparr>bookings := bookings s @ [b]\<rparr>))"

text \<open>
  \<^verbatim>\<open>booking.save()\<close> of a document loaded from the store: the pre-save hook runs again,
  then the stored document with the same id is replaced.
\<close>

definition save_existing :: "env \<Rightarrow> store \<Rightarrow> booking \<Rightarrow> store option" where
  "save_existing e s b =
     (if pre_save e b \<noteq> None then None
      else Some (s\<lparr>bookings :=
             map (\<lambda>x. if booking_id x = booking_id b then b else x) (bookings s)\<rparr>))"

definition save_listing :: "store \<Rightarrow> listing_doc \<Rightarrow> store" where
  "save_listing s l =
     s\<lparr>listings := map (\<lambda>x. if listing_id x = listing_id l then l else x) (listings s)\<rparr>"

section \<open>POST /api/bookings\<close>

record create_request =
  req_listing :: "object_id field"
  req_checkIn :: date_field
  req_checkOut :: date_field
  req_adults :: "int field"
  req_children :: "int field"
  req_infants :: "int field"
  req_specialRequests :: "string option"

text \<open>
  The validation chains of the route, in their order. Every validator of a chain runs;
  each failing one contributes its message.
\<close>

definition validate_create :: "env \<Rightarrow> create_request \<Rightarrow> string list" where
  "validate_create e r =
     (case req_listing r of
        Absent \<Rightarrow> [''Listing ID is required'', ''Invalid listing ID'']
      | Malformed \<Rightarrow> [''Invalid listing ID'']
      | Val _ \<Rightarrow> [])
     @ (if isISO8601 (req_checkIn r) then [] else [''Check-in date must be a valid date''])
     @ (case parsed (req_checkIn r) of
          None \<Rightarrow> []
        | Some ci \<Rightarrow>
            if ci < startOfDay e then [''Check-in date cannot be in the past''] else [])
     @ (if isISO8601 (req_checkOut r) then [] else [''Check-out date must be a valid date''])
     @ (case parsed (req_checkOut r) of
          None \<Rightarrow> []
        | Some co \<Rightarrow>
            (case parsed (req_checkIn r) of
               None \<Rightarrow> []
             | Some ci \<Rightarrow>
                 if co \<le> ci then [''Check-out date must be after check-in date''] else []))
     @ (case req_adults r of
          Val n \<Rightarrow> if n \<ge> 1 then [] else [''At least 1 adult is required'']
        | _ \<Rightarrow> [''At least 1 adult is required''])
     @ (case req_children r of
          Absent \<Rightarrow> []
        | Malformed \<Rightarrow> [''Children count cannot be negative'']
        | Val n \<Rightarrow> if n \<ge> 0 then [] else [''Children count cannot be negative''])
     @ (case req_infants r of
          Absent \<Rightarrow> []
        | Malformed \<Rightarrow> [''Infants count cannot be negative'']
        | Val n \<Rightarrow> if n \<ge> 0 then [] else [''Infants count cannot be negative''])"

text \<open>
  \<^verbatim>\<open>x || 0\<close> on an optional count. The handler adds \<^verbatim>\<open>guests.adults\<close> as it is; it is a
  number whenever validation has passed, which is the only case in which the sum is taken.
\<close>

definition or_zero :: "int field \<Rightarrow> int" where
  "or_zero f = (case f of Val n \<Rightarrow> n | _ \<Rightarrow> 0)"

definition totalGuests :: "create_request \<Rightarrow> int" where
  "totalGuests r = or_zero (req_adults r) + or_zero (req_children r) + or_zero (req_infants r)"

text \<open>The \<^verbatim>\<open>Booking.findOne\<close> query for an overlapping booking.\<close>

definition overlaps :: "object_id \<Rightarrow> date \<Rightarrow> date \<Rightarrow> booking \<Rightarrow> bool" where
  "overlaps lid ci co b \<longleftrightarrow>
     listing b = lid \<and> (status b = Pending \<or> status b = Confirmed) \<and>
     checkIn b < co \<and> checkOut b > ci"

definition overlappingBooking :: "store \<Rightarrow> object_id \<Rightarrow> date \<Rightarrow> date \<Rightarrow> booking option" where
  "overlappingBooking s lid ci co = find (overlaps lid ci co) (bookings s)"

text \<open>\<^verbatim>\<open>Math.ceil((checkOutDate - checkInDate) / (1000 * 60 * 60 * 24))\<close>\<close>

definition nights :: "date \<Rightarrow> date \<Rightarrow> int" where
  "nights ci co = \<lceil>rat_of_int (co - ci) / rat_of_int msPerDay\<rceil>"

definition new_booking :: "env \<Rightarrow> object_id \<Rightarrow> object_id \<Rightarrow> date \<Rightarrow> date \<Rightarrow>
    create_request \<Rightarrow> rat \<Rightarrow> booking" where
  "new_booking e lid uid ci co r amount =
     \<lparr>booking_id = freshId e, listing = lid, guest = uid, checkIn = ci, checkOut = co,
      guests = \<lparr>adults = or_zero (req_adults r), children = or_zero (req_children r),
                infants = or_zero (req_infants r)\<rparr>,
      totalAmount = amount, status = Pending, paymentStatus = PaymentPending,
      specialRequests = req_specialRequests r, cancellationReason = None, review = None,
      createdAt = now e\<rparr>"

text \<open>
  The handler. A request that passed validation has a well-formed listing id; a date
  that passed \<^verbatim>\<open>isISO8601\<close> can still be an Invalid Date, which the overlap query
  refuses to cast: the error is caught and answered with status 500. The capacity
  message is written without the number the source interpolates into it.
\<close>

definition create_booking :: "env \<Rightarrow> store \<Rightarrow> object_id \<Rightarrow> create_request \<Rightarrow>
    (error + booking) \<times> store" where
  "create_booking e s uid r =
     (let errors = validate_create e r in
      if errors \<noteq> [] then (Inl (ValidationFailed errors), s)
      else
        (case req_listing r of
           Val lid \<Rightarrow>
             (case findListing s lid of
                None \<Rightarrow> (Inl (NotFound ''Listing not found''), s)
              | Some l \<Rightarrow>
                  if \<not> isActive l then
                    (Inl (BadRequest ''Listing is not available for booking''), s)
                  else if totalGuests r > maxGuests l then
                    (Inl (BadRequest ''This property can accommodate maximum guests''), s)
                  else
                    (case (parsed (req_checkIn r), parsed (req_checkOut r)) of
                       (Some ci, Some co) \<Rightarrow>
                         if overlappingBooking s lid ci co \<noteq> None then
                           (Inl (BadRequest
                              ''These dates are not available. Please choose different dates.''), s)
                         else
                           (let b = new_booking e lid uid ci co r
                                      (rat_of_int (nights ci co) * price l)
                            in case save_new e s b of
                                 None \<Rightarrow>
                                   (Inl (ServerError ''Server error while creating booking''), s)
                               | Some s' \<Rightarrow> (Inr b, s'))
                     | _ \<Rightarrow> (Inl (ServerError ''Server error while creating booking''), s)))
         | _ \<Rightarrow> (Inl (ValidationFailed errors), s)))"

section \<open>GET /api/bookings\<close>

record list_request =
  q_status :: "string option"
  q_type :: "string option"

definition status_name :: "booking_status \<Rightarrow> string" where
  "status_name st =
     (case st of Pending \<Rightarrow> ''pending'' | Confirmed \<Rightarrow> ''confirmed''
      | Cancelled \<Rightarrow> ''cancelled'' | Completed \<Rightarrow> ''completed'')"

text \<open>
  The filter object the handler builds. The query field \<^verbatim>\<open>type\<close> defaults to
  \<^verbatim>\<open>'guest'\<close> when it is not sent; \<^verbatim>\<open>if (status)\<close> is false for the empty string.
\<close>

definition bookings_filter :: "store \<Rightarrow> object_id \<Rightarrow> list_request \<Rightarrow> booking \<Rightarrow> bool" where
  "bookings_filter s uid q b =
     (let type = (case q_type q of None \<Rightarrow> ''guest'' | Some t \<Rightarrow> t);
          listingIds = map listing_id (filter (\<lambda>l. host l = uid) (listings s))
      in (if type = ''guest'' then guest b = uid
          else if type = ''host'' then listing b \<in> set listingIds
          else True)
         \<and> (case q_status q of
               None \<Rightarrow> True
             | Some st \<Rightarrow> if st \<noteq> [] then status_name (status b) = st else True))"

text \<open>\<^verbatim>\<open>Booking.find(filter).sort({ createdAt: -1 })\<close>: newest first.\<close>

definition list_bookings :: "store \<Rightarrow> object_id \<Rightarrow> list_request \<Rightarrow> booking list" where
  "list_bookings s uid q =
     sort_key (\<lambda>b. - createdAt b) (filter (bookings_filter s uid q) (bookings s))"

section \<open>PUT /api/bookings/:id/cancel\<close>

record cancel_request =
  c_reason :: "string option"

definition validate_cancel :: "cancel_request \<Rightarrow> string list" where
  "validate_cancel r =
     (case c_reason r of
        None \<Rightarrow> []
      | Some t \<Rightarrow>
          if length t \<le> 500 then []
          else [''Cancellation reason cannot exceed 500 characters''])"

text \<open>\<^verbatim>\<open>req.body.reason || 'No reason provided'\<close>: the empty string is falsy.\<close>

definition reason_or_default :: "string option \<Rightarrow> string" where
  "reason_or_default x =
     (case x of None \<Rightarrow> ''No reason provided''
      | Some t \<Rightarrow> if t \<noteq> [] then t else ''No reason provided'')"

text \<open>
  The path parameter is \<open>None\<close> when it is not a well-formed ObjectId: \<^verbatim>\<open>findById\<close> then
  throws a CastError. The booking is loaded with its listing joined; when the listing is
  gone the join yields \<^verbatim>\<open>null\<close>, and reading \<^verbatim>\<open>booking.listing.host\<close> throws.
\<close>

definition cancel_booking :: "env \<Rightarrow> store \<Rightarrow> object_id \<Rightarrow> object_id option \<Rightarrow>
    cancel_request \<Rightarrow> (error + booking) \<times> store" where
  "cancel_booking e s uid bid r =
     (let errors = validate_cancel r in
      if errors \<noteq> [] then (Inl (ValidationFailed errors), s)
      else
        (case bid of
           None \<Rightarrow> (Inl (BadRequest ''Invalid booking ID''), s)
         | Some i \<Rightarrow>
             (case findBooking s i of
                None \<Rightarrow> (Inl (NotFound ''Booking not found''), s)
              | Some b \<Rightarrow>
                  (case findListing s (listing b) of
                     None \<Rightarrow> (Inl (ServerError ''Server error while cancelling booking''), s)
                   | Some l \<Rightarrow>
                       (let isGuest = (guest b = uid); isHost = (host l = uid) in
                        if \<not> isGuest \<and> \<not> isHost then
                          (Inl (Forbidden ''Not authorized to cancel this booking''), s)
                        else if status b = Cancelled then
                          (Inl (BadRequest ''Booking is already cancelled''), s)
                        else if status b = Completed then
                          (Inl (BadRequest ''Cannot cancel a completed booking''), s)
                        else
                          (let b' = b\<lparr>status := Cancelled,
                                      cancellationReason := Some (reason_or_default (c_reason r))\<rparr>
                           in case save_existing e s b' of
                                None \<Rightarrow>
                                  (Inl (ServerError ''Server error while cancelling booking''), s)
                              | Some s' \<Rightarrow> (Inr b', s')))))))"

section \<open>PUT /api/bookings/:id/review\<close>

record review_request =
  r_rating :: "int field"
  r_comment :: "string option"

definition validate_review :: "review_request \<Rightarrow> string list" where
  "validate_review r =
     (case r_rating r of
        Val n \<Rightarrow> if 1 \<le> n \<and> n \<le> 5 then [] else [''Rating must be between 1 and 5'']
      | _ \<Rightarrow> [''Rating must be between 1 and 5''])
     @ (case r_comment r of
          None \<Rightarrow> []
        | Some t \<Rightarrow>
            if length t \<le> 500 then []
            else [''Review comment cannot exceed 500 characters''])"

text \<open>\<^verbatim>\<open>booking.review && booking.review.rating\<close>: a stored rating of 0 is falsy.\<close>

definition alreadyReviewed :: "booking \<Rightarrow> bool" where
  "alreadyReviewed b = (case review b of None \<Rightarrow> False | Some v \<Rightarrow> rating v \<noteq> 0)"

text \<open>The rating rollup on the listing, after the booking has been saved.\<close>

definition add_rating :: "listing_doc \<Rightarrow> int \<Rightarrow> listing_doc" where
  "add_rating l n =
     (let totalRating = average (listing_rating l) * of_nat (count (listing_rating l))
                          + rat_of_int n;
          count' = count (listing_rating l) + 1
      in l\<lparr>listing_rating := \<lparr>average = totalRating / of_nat count', count = count'\<rparr>\<rparr>)"

definition submit_review :: "env \<Rightarrow> store \<Rightarrow> object_id \<Rightarrow> object_id option \<Rightarrow>
    review_request \<Rightarrow> (error + booking) \<times> store" where
  "submit_review e s uid bid r =
     (let errors = validate_review r in
      if errors \<noteq> [] then (Inl (ValidationFailed errors), s)
      else
        (case r_rating r of
           Val n \<Rightarrow>
             (case bid of
                None \<Rightarrow> (Inl (BadRequest ''Invalid booking ID''), s)
              | Some i \<Rightarrow>
                  (case findBooking s i of
                     None \<Rightarrow> (Inl (NotFound ''Booking not found''), s)
                   | Some b \<Rightarrow>
                       if guest b \<noteq> uid then
                         (Inl (Forbidden ''Only guests can review bookings''), s)
                       else if status b \<noteq> Completed then
                         (Inl (BadRequest ''Can only review completed bookings''), s)
                       else if alreadyReviewed b then
                         (Inl (BadRequest ''Booking already reviewed''), s)
                       else
                         (let b' = b\<lparr>review := Some \<lparr>rating = n,
                                       comment = (case r_comment r of None \<Rightarrow> [] | Some t \<Rightarrow> t),
                                       reviewDate = now e\<rparr>\<rparr>
                          in case save_existing e s b' of
                               None \<Rightarrow>
                                 (Inl (ServerError ''Server error while adding review''), s)
                             | Some s' \<Rightarrow>
                                 (case findListing s' (listing b') of
                                    None \<Rightarrow> (Inr b', s')
                                  | Some l \<Rightarrow> (Inr b', save_listing s' (add_rating l n))))))
         | _ \<Rightarrow> (Inl (ValidationFailed errors), s)))"

section \<open>GET /api/listings\<close>

record listings_query =
  l_city :: "string option"
  l_minPrice :: "rat field"
  l_maxPrice :: "rat field"
  l_guests :: "int field"
  l_propertyType :: "string option"
  l_page :: "int field"
  l_limit :: "int field"

record pagination =
  currentPage :: int
  totalPages :: int
  totalListings :: nat
  hasNextPage :: bool
  hasPreviousPage :: bool

record listings_page =
  page_listings :: "listing_doc list"
  page_pagination :: pagination

definition propertyTypes :: "string list" where
  "propertyTypes = [''apartment'', ''house'', ''condo'', ''villa'', ''studio'', ''room'']"

definition validate_listings :: "listings_query \<Rightarrow> string list" where
  "validate_listings q =
     (if l_minPrice q = Malformed then [''Min price must be a number''] else [])
     @ (if l_maxPrice q = Malformed then [''Max price must be a number''] else [])
     @ (case l_guests q of
          Absent \<Rightarrow> []
        | Malformed \<Rightarrow> [''Guests must be at least 1'']
        | Val n \<Rightarrow> if n \<ge> 1 then [] else [''Guests must be at least 1''])
     @ (case l_propertyType q of
          None \<Rightarrow> []
        | Some t \<Rightarrow> if t \<in> set propertyTypes then [] else [''Invalid value''])
     @ (case l_page q of
          Absent \<Rightarrow> []
        | Malformed \<Rightarrow> [''Page must be at least 1'']
        | Val n \<Rightarrow> if n \<ge> 1 then [] else [''Page must be at least 1''])
     @ (case l_limit q of
          Absent \<Rightarrow> []
        | Malformed \<Rightarrow> [''Limit must be between 1 and 50'']
        | Val n \<Rightarrow> if 1 \<le> n \<and> n \<le> 50 then [] else [''Limit must be between 1 and 50''])"

text \<open>
  The filter object of the search. The city is matched by the database's regular
  expression engine, case-insensitively: \<open>rx\<close> is that engine, \<open>rx pattern\<close> being the
  matcher of a pattern, or \<open>None\<close> for a pattern the database rejects.
\<close>

definition listings_filter :: "(string \<Rightarrow> bool) option \<Rightarrow> listings_query \<Rightarrow> listing_doc \<Rightarrow> bool" where
  "listings_filter cityMatch q l \<longleftrightarrow>
     isActive l
     \<and> (case cityMatch of None \<Rightarrow> True | Some m \<Rightarrow> m (city l))
     \<and> (case l_minPrice q of Val p \<Rightarrow> price l \<ge> p | _ \<Rightarrow> True)
     \<and> (case l_maxPrice q of Val p \<Rightarrow> price l \<le> p | _ \<Rightarrow> True)
     \<and> (case l_guests q of Val g \<Rightarrow> maxGuests l \<ge> g | _ \<Rightarrow> True)
     \<and> (case l_propertyType q of
          None \<Rightarrow> True
        | Some t \<Rightarrow> if t \<noteq> [] then propertyType l = t else True)"

text \<open>\<^verbatim>\<open>const { page = 1, limit = 12 } = req.query\<close> and \<^verbatim>\<open>parseInt\<close>.\<close>

definition page_of :: "listings_query \<Rightarrow> int" where
  "page_of q = (case l_page q of Val n \<Rightarrow> n | _ \<Rightarrow> 1)"

definition limit_of :: "listings_query \<Rightarrow> int" where
  "limit_of q = (case l_limit q of Val n \<Rightarrow> n | _ \<Rightarrow> 12)"

definition paginate :: "listings_query \<Rightarrow> listing_doc list \<Rightarrow> listings_page" where
  "paginate q matching =
     (let skip = (page_of q - 1) * limit_of q;
          found = take (nat (limit_of q))
                    (drop (nat skip) (sort_key (\<lambda>l. - listing_createdAt l) matching));
          n_total = length matching;
          pages = \<lceil>rat_of_nat n_total / rat_of_int (limit_of q)\<rceil>
      in \<lparr>page_listings = found,
          page_pagination =
            \<lparr>currentPage = page_of q, totalPages = pages, totalListings = n_total,
             hasNextPage = (page_of q < pages), hasPreviousPage = (page_of q > 1)\<rparr>\<rparr>)"

definition get_listings :: "(string \<Rightarrow> (string \<Rightarrow> bool) option) \<Rightarrow> store \<Rightarrow> listings_query \<Rightarrow>
    error + listings_page" where
  "get_listings rx s q =
     (let errors = validate_listings q in
      if errors \<noteq> [] then Inl (ValidationFailed errors)
      else
        (case l_city q of
           None \<Rightarrow> Inr (paginate q (filter (listings_filter None q) (listings s)))
         | Some c \<Rightarrow>
             if c = [] then Inr (paginate q (filter (listings_filter None q) (listings s)))
             else
               (case rx c of
                  None \<Rightarrow> Inl (ServerError ''Server error while fetching listings'')
                | Some m \<Rightarrow>
                    Inr (paginate q (filter (listings_filter (Some m) q) (listings s))))))"

section \<open>Scenarios\<close>

text \<open>
  The concrete data of the specification's scenarios: a listing at 150 per night for up
  to four guests, rated 4.8 over 24 reviews, with a confirmed stay from 2025-07-01 to
  2025-07-05 (UTC midnights), seen on 2025-06-01 and again on 2025-08-01.
\<close>

definition env_june :: env where
  "env_june = \<lparr>now = 1748739600000, tzOffset = 0, freshId = 7\<rparr>"

definition env_august :: env where
  "env_august = \<lparr>now = 1754013600000, tzOffset = 0, freshId = 8\<rparr>"

definition villa :: listing_doc where
  "villa = \<lparr>listing_id = 1, price = 150, city = ''Lisbon'', propertyType = ''villa'',
            maxGuests = 4, host = 10, listing_rating = \<lparr>average = 24 / 5, count = 24\<rparr>,
            isActive = True, listing_createdAt = 1740000000000\<rparr>"

definition stay_july :: booking where
  "stay_july = \<lparr>booking_id = 2, listing = 1, guest = 20,
                checkIn = 1751328000000, checkOut = 1751673600000,
                guests = \<lparr>adults = 2, children = 0, infants = 0\<rparr>,
                totalAmount = 600, status = Confirmed, paymentStatus = Paid,
                specialRequests = None, cancellationReason = None, review = None,
                createdAt = 1745000000000\<rparr>"

definition stay_other :: booking where
  "stay_other = \<lparr>booking_id = 3, listing = 1, guest = 30,
                 checkIn = 1751846400000, checkOut = 1751932800000,
                 guests = \<lparr>adults = 1, children = 0, infants = 0\<rparr>,
                 totalAmount = 150, status = Cancelled, paymentStatus = Refunded,
                 specialRequests = None, cancellationReason = Some ''Change of plans'',
                 review = None, createdAt = 1746000000000\<rparr>"

definition store_july :: store where
  "store_july = \<lparr>bookings = [stay_july], listings = [villa]\<rparr>"

definition store_two :: store where
  "store_two = \<lparr>bookings = [stay_july, stay_other], listings = [villa]\<rparr>"

definition store_done :: store where
  "store_done = \<lparr>bookings = [stay_july\<lparr>status := Completed\<rparr>], listings = [villa]\<rparr>"

definition store_reviewed :: store where
  "store_reviewed =
     \<lparr>bookings = [stay_july\<lparr>status := Completed,
                     review := Some \<lparr>rating = 4, comment = ''Lovely'', reviewDate = 1752000000000\<rparr>\<rparr>],
      listings = [villa]\<rparr>"

definition iso :: "date \<Rightarrow> date_field" where
  "iso t = \<lparr>isISO8601 = True, parsed = Some t\<rparr>"

definition req_overlap :: create_request where
  "req_overlap = \<lparr>req_listing = Val 1, req_checkIn = iso 1751587200000,
                  req_checkOut = iso 1751760000000, req_adults = Val 3, req_children = Val 1,
                  req_infants = Val 0, req_specialRequests = None\<rparr>"

definition req_back_to_back :: create_request where
  "req_back_to_back = req_overlap\<lparr>req_checkIn := iso 1751673600000,
                                  req_checkOut := iso 1751846400000\<rparr>"

definition req_inverted :: create_request where
  "req_inverted = req_overlap\<lparr>req_listing := Val 99, req_checkIn := iso 1751673600000,
                              req_checkOut := iso 1751587200000\<rparr>"

definition five_stars :: review_request where
  "five_stars = \<lparr>r_rating = Val 5, r_comment = None\<rparr>"

definition no_reason :: cancel_request where
  "no_reason = \<lparr>c_reason = None\<rparr>"

definition any_city :: "string \<Rightarrow> (string \<Rightarrow> bool) option" where
  "any_city pat = Some (\<lambda>c. True)"

definition store_25 :: store where
  "store_25 = \<lparr>bookings = [], listings = replicate 25 villa\<rparr>"

definition third_page :: listings_query where
  "third_page = \<lparr>l_city = None, l_minPrice = Absent, l_maxPrice = Absent, l_guests = Absent,
                 l_propertyType = None, l_page = Val 3, l_limit = Val 12\<rparr>"

definition all_types :: list_request where
  "all_types = \<lparr>q_status = None, q_type = Some ''all''\<rparr>"

definition store_closed :: store where
  "store_closed = \<lparr>bookings = [stay_july], listings = [villa\<lparr>isActive := False\<rparr>]\<rparr>"

definition long_reason :: cancel_request where
  "long_reason = \<lparr>c_reason = Some (replicate 501 CHR ''x'')\<rparr>"

definition six_stars :: review_request where
  "six_stars = \<lparr>r_rating = Val 6, r_comment = None\<rparr>"

lemmas scenario_defs =
  env_june_def env_august_def villa_def stay_july_def stay_other_def store_july_def
  store_two_def store_done_def store_reviewed_def store_closed_def iso_def req_overlap_def
  req_back_to_back_def req_inverted_def five_stars_def six_stars_def no_reason_def
  long_reason_def any_city_def store_25_def third_page_def all_types_def

lemmas handler_defs =
  create_booking_def validate_create_def startOfDay_def msPerDay_def findListing_def
  findBooking_def totalGuests_def or_zero_def overlappingBooking_def overlaps_def save_new_def
  save_existing_def save_listing_def schema_valid_def pre_save_def new_booking_def nights_def
  cancel_booking_def validate_cancel_def reason_or_default_def submit_review_def
  validate_review_def alreadyReviewed_def add_rating_def Let_def

section \<open>Auxiliary facts\<close>

lemma validate_review_Nil:
  "validate_review r = [] \<Longrightarrow> \<exists>n. r_rating r = Val n \<and> 1 \<le> n \<and> n \<le> 5"
  by (auto simp: validate_review_def split: field.splits if_splits)

lemma validate_create_Nil:
  "validate_create e r = [] \<Longrightarrow> \<exists>lid. req_listing r = Val lid"
  by (auto simp: validate_create_def split: field.splits)

lemma find_key_eq:
  "find (\<lambda>x. f x = i) xs = Some y \<Longrightarrow> f y = i"
  by (induction xs) (auto split: if_splits)

lemma find_replaced:
  "find (\<lambda>x. f x = i) xs = Some y \<Longrightarrow> f y' = i \<Longrightarrow>
     find (\<lambda>x. f x = i) (map (\<lambda>x. if f x = i then y' else x) xs) = Some y'"
  by (induction xs) (auto split: if_splits)

lemma bookings_filter_other_type:
  assumes "q_type q = Some t" and "t \<noteq> ''guest''" and "t \<noteq> ''host''"
  shows "bookings_filter s uid q b \<longleftrightarrow>
           (case q_status q of None \<Rightarrow> True
            | Some st \<Rightarrow> st = [] \<or> status_name (status b) = st)"
  using assms by (auto simp: bookings_filter_def Let_def split: option.splits)

section \<open>Creation: availability, amount, dates\<close>





text \<open>
  C6. Whenever the requested check-out is not after the requested check-in, creation
  answers with the validation failure that carries the check-out message, and the store is
  unchanged; a check-in before the start of the current day is refused in the same way
  with the check-in message. The pre-save hook of the model refuses such dates as well.
\<close>

theorem create_rejects_bad_dates:
  "(\<forall>ci co. parsed (req_checkIn r) = Some ci \<and> parsed (req_checkOut r) = Some co \<and> co \<le> ci \<longrightarrow>
      (\<exists>errs. create_booking e s uid r = (Inl (ValidationFailed errs), s) \<and>
         ''Check-out date must be after check-in date'' \<in> set errs)) \<and>
   (\<forall>ci. parsed (req_checkIn r) = Some ci \<and> ci < startOfDay e \<longrightarrow>
      (\<exists>errs. create_booking e s uid r = (Inl (ValidationFailed errs), s) \<and>
         ''Check-in date cannot be in the past'' \<in> set errs)) \<and>
   (\<forall>b. checkOut b \<le> checkIn b \<or> checkIn b < startOfDay e \<longrightarrow> save_new e s b = None)"
  by (auto simp: create_booking_def Let_def validate_create_def save_new_def pre_save_def)

text \<open>
  An inverted pair of dates in June, and the July dates requested again in August.
\<close>

theorem create_rejects_bad_dates_witness:
  "(\<exists>errs. create_booking env_june store_july 21 req_inverted =
              (Inl (ValidationFailed errs), store_july) \<and>
      ''Check-out date must be after check-in date'' \<in> set errs) \<and>
   (\<exists>errs. create_booking env_august store_july 21 req_back_to_back =
              (Inl (ValidationFailed errs), store_july) \<and>
      ''Check-in date cannot be in the past'' \<in> set errs) \<and>
   save_new env_june store_july (stay_july\<lparr>checkOut := checkIn stay_july\<rparr>) = None"
proof -
  have a: "parsed (req_checkIn req_inverted) = Some 1751673600000 \<and>
           parsed (req_checkOut req_inverted) = Some 1751587200000 \<and>
           (1751587200000::int) \<le> 1751673600000"
    by (simp add: scenario_defs)
  have b: "parsed (req_checkIn req_back_to_back) = Some 1751673600000 \<and>
           1751673600000 < startOfDay env_august"
    by (simp add: scenario_defs startOfDay_def msPerDay_def)
  have c: "checkOut (stay_july\<lparr>checkOut := checkIn stay_july\<rparr>)
             \<le> checkIn (stay_july\<lparr>checkOut := checkIn stay_july\<rparr>)"
    by simp
  show ?thesis
    using a b c
      create_rejects_bad_dates [of req_inverted env_june store_july 21]
      create_rejects_bad_dates [of req_back_to_back env_august store_july 21]
    by blast
qed

section \<open>Listing the bookings of a caller\<close>

text \<open>
  C9. When the query field \<open>type\<close> is sent with a value other than \<open>guest\<close> and \<open>host\<close>, the
  filter constrains neither the guest nor the listing: the answer is the same for every
  caller, and it holds every booking of the store that passes the optional status filter.
\<close>

theorem list_bookings_any_type:
  assumes "q_type q = Some t" and "t \<noteq> ''guest''" and "t \<noteq> ''host''"
  shows "list_bookings s uid q = list_bookings s uid' q \<and>
         set (list_bookings s uid q) =
           {b \<in> set (bookings s).
              case q_status q of None \<Rightarrow> True
              | Some st \<Rightarrow> st = [] \<or> status_name (status b) = st}"
proof -
  have same: "bookings_filter s uid q = bookings_filter s uid' q"
    using assms by (intro ext) (simp add: bookings_filter_other_type)
  show ?thesis
    using assms by (auto simp: list_bookings_def same bookings_filter_other_type)
qed

text \<open>
  A caller who is neither guest nor host of anything receives both bookings of the store,
  which belong to the guests 20 and 30.
\<close>

theorem list_bookings_any_type_witness:
  "list_bookings store_two 999 all_types = list_bookings store_two 20 all_types \<and>
   set (list_bookings store_two 999 all_types) = {stay_july, stay_other} \<and>
   guest stay_july = 20 \<and> guest stay_other = 30"
proof -
  have t: "q_type all_types = Some ''all''" "''all'' \<noteq> ''guest''" "''all'' \<noteq> ''host''"
    by (simp_all add: all_types_def)
  have all: "{b \<in> set (bookings store_two).
           case q_status all_types of None \<Rightarrow> True
           | Some st \<Rightarrow> st = [] \<or> status_name (status b) = st} = {stay_july, stay_other}"
    by (auto simp: all_types_def store_two_def)
  have g: "guest stay_july = 20" "guest stay_other = 30"
    by (simp_all add: stay_july_def stay_other_def)
  from list_bookings_any_type [OF t, of store_two 999 20]
  have same: "list_bookings store_two 999 all_types = list_bookings store_two 20 all_types"
    and "set (list_bookings store_two 999 all_types) =
           {b \<in> set (bookings store_two).
              case q_status all_types of None \<Rightarrow> True
              | Some st \<Rightarrow> st = [] \<or> status_name (status b) = st}"
    by blast+
  then have "set (list_bookings store_two 999 all_types) = {stay_july, stay_other}"
    by (simp only: all)
  with same g show ?thesis by blast
qed

section \<open>Pagination of the listing search\<close>

text \<open>
  C8. A listing search that is answered uses the page size sent, which is between 1 and
  50, or 12 when none is sent, and a page number of at least 1 (1 when none is sent). The
  total count is the number of listings that match the filter, the number of pages is the
  total count divided by the page size and rounded up, there is a next page exactly when
  the page number is below the number of pages, and a previous page exactly when the page
  number is above 1. The page holds at most a page size of listings.
\<close>

theorem pagination_ok:
  assumes "get_listings rx s q = Inr p"
  shows "(l_limit q = Absent \<and> limit_of q = 12 \<or> l_limit q = Val (limit_of q)) \<and>
         (l_page q = Absent \<and> page_of q = 1 \<or> l_page q = Val (page_of q)) \<and>
         1 \<le> limit_of q \<and> limit_of q \<le> 50 \<and> 1 \<le> page_of q \<and>
         (\<exists>m. totalListings (page_pagination p) =
                length (filter (listings_filter m q) (listings s))) \<and>
         currentPage (page_pagination p) = page_of q \<and>
         totalPages (page_pagination p) =
           \<lceil>rat_of_nat (totalListings (page_pagination p)) / rat_of_int (limit_of q)\<rceil> \<and>
         hasNextPage (page_pagination p) = (page_of q < totalPages (page_pagination p)) \<and>
         hasPreviousPage (page_pagination p) = (page_of q > 1) \<and>
         length (page_listings p) \<le> nat (limit_of q)"
proof -
  have v: "validate_listings q = []"
    using assms by (auto simp: get_listings_def Let_def split: if_splits)
  have lim: "(l_limit q = Absent \<and> limit_of q = 12 \<or> l_limit q = Val (limit_of q)) \<and>
             1 \<le> limit_of q \<and> limit_of q \<le> 50"
    using v by (auto simp: validate_listings_def limit_of_def split: field.splits if_splits)
  have pg: "(l_page q = Absent \<and> page_of q = 1 \<or> l_page q = Val (page_of q)) \<and> 1 \<le> page_of q"
    using v by (auto simp: validate_listings_def page_of_def split: field.splits if_splits)
  obtain m where p: "p = paginate q (filter (listings_filter m q) (listings s))"
    using assms by (auto simp: get_listings_def Let_def split: if_splits option.splits)
  have "totalListings (page_pagination p) = length (filter (listings_filter m q) (listings s))"
    by (simp add: p paginate_def Let_def)
  then have tot: "\<exists>m. totalListings (page_pagination p) =
                length (filter (listings_filter m q) (listings s))" ..
  show ?thesis
    using lim pg tot by (simp add: p paginate_def Let_def)
qed

text \<open>
  The scenario of the specification: 25 listings in pages of 12 make 3 pages, and page 3
  has a previous page and no next page.
\<close>

theorem pagination_ok_witness:
  "\<exists>p. get_listings any_city store_25 third_page = Inr p \<and>
      totalListings (page_pagination p) = 25 \<and> totalPages (page_pagination p) = 3 \<and>
      \<not> hasNextPage (page_pagination p) \<and> hasPreviousPage (page_pagination p)"
proof -
  obtain p where run: "get_listings any_city store_25 third_page = Inr p"
    and total: "totalListings (page_pagination p) = 25"
    by (simp add: get_listings_def validate_listings_def paginate_def Let_def
          listings_filter_def propertyTypes_def scenario_defs)
  have q: "limit_of third_page = 12" "page_of third_page = 3"
    by (simp_all add: limit_of_def page_of_def third_page_def)
  from pagination_ok [OF run] have
    "totalPages (page_pagination p) =
       \<lceil>rat_of_nat (totalListings (page_pagination p)) / rat_of_int (limit_of third_page)\<rceil>"
    "hasNextPage (page_pagination p) = (page_of third_page < totalPages (page_pagination p))"
    "hasPreviousPage (page_pagination p) = (page_of third_page > 1)"
    by blast+
  with total q have "totalPages (page_pagination p) = 3 \<and>
      \<not> hasNextPage (page_pagination p) \<and> hasPreviousPage (page_pagination p)"
    by (simp add: ceiling_eq_iff)
  with run total show ?thesis by blast
qed

section \<open>Reviews\<close>

text \<open>
  C4. A review submitted for a booking that already carries a review is never accepted:
  whoever the caller and whatever the request, the answer is an error and the store (the
  booking's review, the listing's average and count) is left as it was. When the request
  is valid and comes from the booking's guest for a completed booking, the error is the
  duplicate-review conflict.
\<close>

theorem review_twice_fails:
  assumes "findBooking s i = Some b" and "alreadyReviewed b"
  shows "(\<exists>err. submit_review e s uid (Some i) r = (Inl err, s)) \<and>
         (validate_review r = [] \<and> guest b = uid \<and> status b = Completed \<longrightarrow>
            submit_review e s uid (Some i) r = (Inl (BadRequest ''Booking already reviewed''), s))"
  using assms
  by (auto simp: submit_review_def Let_def validate_review_def split: field.splits)

text \<open>The guest of a stay reviewed with four stars sends five stars.\<close>

theorem review_twice_fails_witness:
  "submit_review env_june store_reviewed 20 (Some 2) five_stars =
     (Inl (BadRequest ''Booking already reviewed''), store_reviewed)"
proof -
  define b where "b = stay_july\<lparr>status := Completed,
      review := Some \<lparr>rating = 4, comment = ''Lovely'', reviewDate = 1752000000000\<rparr>\<rparr>"
  have f: "findBooking store_reviewed 2 = Some b"
    by (simp add: b_def findBooking_def store_reviewed_def stay_july_def)
  have a: "alreadyReviewed b"
    by (simp add: b_def alreadyReviewed_def)
  have "validate_review five_stars = [] \<and> guest b = 20 \<and> status b = Completed"
    by (simp add: b_def validate_review_def five_stars_def stay_july_def)
  with review_twice_fails [OF f a, of env_june 20 five_stars] show ?thesis
    by blast
qed

section \<open>The pre-save hook on every save\<close>

text \<open>When the hook passes, cancellation and the first review go through.\<close>

lemma cancel_ok_when_hook_passes:
  assumes "validate_cancel cr = []" and "findBooking s i = Some b"
    and "findListing s (listing b) = Some l" and "guest b = uid \<or> host l = uid"
    and "status b = Pending \<or> status b = Confirmed"
    and "startOfDay e \<le> checkIn b" and "checkIn b < checkOut b"
  shows "\<exists>s'. cancel_booking e s uid (Some i) cr =
           (Inr (b\<lparr>status := Cancelled,
                   cancellationReason := Some (reason_or_default (c_reason cr))\<rparr>), s') \<and>
           findBooking s' i =
             Some (b\<lparr>status := Cancelled,
                     cancellationReason := Some (reason_or_default (c_reason cr))\<rparr>) \<and>
           listings s' = listings s"
proof -
  have i: "booking_id b = i"
    using assms(2) unfolding findBooking_def by (rule find_key_eq)
  let ?b = "b\<lparr>status := Cancelled,
               cancellationReason := Some (reason_or_default (c_reason cr))\<rparr>"
  let ?s = "s\<lparr>bookings := map (\<lambda>x. if booking_id x = i then ?b else x) (bookings s)\<rparr>"
  have sv: "save_existing e s ?b = Some ?s"
    using assms(6,7) i by (simp add: save_existing_def pre_save_def)
  have run: "cancel_booking e s uid (Some i) cr = (Inr ?b, ?s)"
    using assms(1-5) sv by (auto simp: cancel_booking_def Let_def)
  have "findBooking ?s i = Some ?b"
    using assms(2) i unfolding findBooking_def by (simp add: find_replaced)
  with run show ?thesis by simp
qed

lemma review_ok_when_hook_passes:
  assumes "validate_review rr = []" and "r_rating rr = Val n"
    and "findBooking s i = Some b" and "guest b = uid" and "status b = Completed"
    and "\<not> alreadyReviewed b"
    and "startOfDay e \<le> checkIn b" and "checkIn b < checkOut b"
    and "findListing s (listing b) = Some l"
  shows "\<exists>b' s' l'. submit_review e s uid (Some i) rr = (Inr b', s') \<and>
           b' = b\<lparr>review := Some \<lparr>rating = n,
                     comment = (case r_comment rr of None \<Rightarrow> [] | Some t \<Rightarrow> t),
                     reviewDate = now e\<rparr>\<rparr> \<and>
           findBooking s' i = Some b' \<and>
           findListing s' (listing b) = Some l' \<and>
           average (listing_rating l') =
             (average (listing_rating l) * of_nat (count (listing_rating l)) + of_int n)
               / of_nat (count (listing_rating l) + 1) \<and>
           count (listing_rating l') = count (listing_rating l) + 1"
proof -
  have i: "booking_id b = i"
    using assms(3) unfolding findBooking_def by (rule find_key_eq)
  have k: "listing_id l = listing b"
    using assms(9) unfolding findListing_def by (rule find_key_eq)
  let ?b = "b\<lparr>review := Some \<lparr>rating = n,
                     comment = (case r_comment rr of None \<Rightarrow> [] | Some t \<Rightarrow> t),
                     reviewDate = now e\<rparr>\<rparr>"
  let ?s1 = "s\<lparr>bookings := map (\<lambda>x. if booking_id x = i then ?b else x) (bookings s)\<rparr>"
  let ?l = "add_rating l n"
  have sv: "save_existing e s ?b = Some ?s1"
    using assms(7,8) i by (simp add: save_existing_def pre_save_def)
  have fl: "findListing ?s1 (listing ?b) = Some l"
    using assms(9) by (simp add: findListing_def)
  have run: "submit_review e s uid (Some i) rr = (Inr ?b, save_listing ?s1 ?l)"
    using assms(1-6) sv fl by (simp add: submit_review_def Let_def)
  have fb: "findBooking (save_listing ?s1 ?l) i = Some ?b"
    using assms(3) i unfolding findBooking_def save_listing_def by (simp add: find_replaced)
  have lid: "listing_id ?l = listing b"
    using k by (simp add: add_rating_def Let_def)
  have "find (\<lambda>x. listing_id x = listing b)
          (map (\<lambda>x. if listing_id x = listing b then ?l else x) (listings s)) = Some ?l"
    using assms(9) lid unfolding findListing_def by (rule find_replaced)
  then have fl': "findListing (save_listing ?s1 ?l) (listing b) = Some ?l"
    using lid by (simp add: findListing_def save_listing_def)
  have "average (listing_rating ?l) =
             (average (listing_rating l) * of_nat (count (listing_rating l)) + of_int n)
               / of_nat (count (listing_rating l) + 1)"
       "count (listing_rating ?l) = count (listing_rating l) + 1"
    by (simp_all add: add_rating_def Let_def)
  with run fb fl' show ?thesis by blast
qed

text \<open>
  C10. Every save of a booking, new or loaded, runs the pre-save hook, which refuses a
  check-in before the start of the current day and a check-in not before the check-out.
  So once the check-in day of a booking has passed, no cancellation and no review of it
  completes, whoever asks: the answer is an error and the store is unchanged. For a
  request that reaches the save (authorised caller, status pending or confirmed for a
  cancellation; the guest, status completed, no review yet for a review) the error is the
  server error of the handler's catch clause.
\<close>

theorem pre_save_runs_on_every_save:
  "(checkIn b < startOfDay e \<or> checkOut b \<le> checkIn b \<longrightarrow>
      save_new e s b = None \<and> save_existing e s b = None) \<and>
   (findBooking s i = Some b \<and> checkIn b < startOfDay e \<longrightarrow>
      (\<exists>err. cancel_booking e s uid (Some i) cr = (Inl err, s)) \<and>
      (\<exists>err. submit_review e s uid (Some i) rr = (Inl err, s))) \<and>
   (validate_cancel cr = [] \<and> findBooking s i = Some b \<and> findListing s (listing b) = Some l \<and>
    (guest b = uid \<or> host l = uid) \<and> (status b = Pending \<or> status b = Confirmed) \<and>
    checkIn b < startOfDay e \<longrightarrow>
      cancel_booking e s uid (Some i) cr =
        (Inl (ServerError ''Server error while cancelling booking''), s)) \<and>
   (validate_review rr = [] \<and> findBooking s i = Some b \<and> guest b = uid \<and>
    status b = Completed \<and> \<not> alreadyReviewed b \<and> checkIn b < startOfDay e \<longrightarrow>
      submit_review e s uid (Some i) rr =
        (Inl (ServerError ''Server error while adding review''), s))"
proof (intro conjI impI)
  assume "checkIn b < startOfDay e \<or> checkOut b \<le> checkIn b"
  then show "save_new e s b = None" "save_existing e s b = None"
    by (auto simp: save_new_def save_existing_def pre_save_def)
next
  assume a: "findBooking s i = Some b \<and> checkIn b < startOfDay e"
  then show "\<exists>err. cancel_booking e s uid (Some i) cr = (Inl err, s)"
    by (auto simp: cancel_booking_def Let_def save_existing_def pre_save_def
        split: option.splits)
  from a show "\<exists>err. submit_review e s uid (Some i) rr = (Inl err, s)"
    by (auto simp: submit_review_def Let_def save_existing_def pre_save_def
        split: field.splits)
next
  assume "validate_cancel cr = [] \<and> findBooking s i = Some b \<and>
    findListing s (listing b) = Some l \<and> (guest b = uid \<or> host l = uid) \<and>
    (status b = Pending \<or> status b = Confirmed) \<and> checkIn b < startOfDay e"
  then show "cancel_booking e s uid (Some i) cr =
        (Inl (ServerError ''Server error while cancelling booking''), s)"
    by (auto simp: cancel_booking_def Let_def save_existing_def pre_save_def)
next
  assume a: "validate_review rr = [] \<and> findBooking s i = Some b \<and> guest b = uid \<and>
    status b = Completed \<and> \<not> alreadyReviewed b \<and> checkIn b < startOfDay e"
  then obtain n where "r_rating rr = Val n"
    using validate_review_Nil by blast
  with a show "submit_review e s uid (Some i) rr =
        (Inl (ServerError ''Server error while adding review''), s)"
    by (auto simp: submit_review_def Let_def save_existing_def pre_save_def)
qed

text \<open>
  On 2025-08-01 the stay of 2025-07-01 can no longer be saved: the host's cancellation of
  it and a guest's review of a completed one both end in the server error.
\<close>

theorem pre_save_runs_on_every_save_witness:
  "save_existing env_august store_july stay_july = None \<and>
   cancel_booking env_august store_july 10 (Some 2) no_reason =
     (Inl (ServerError ''Server error while cancelling booking''), store_july) \<and>
   submit_review env_august store_done 20 (Some 2) \<lparr>r_rating = Val 3, r_comment = Some ''Fine''\<rparr> =
     (Inl (ServerError ''Server error while adding review''), store_done)"
proof -
  have past: "checkIn stay_july < startOfDay env_august"
    by (simp add: startOfDay_def msPerDay_def scenario_defs)
  have c: "validate_cancel no_reason = [] \<and> findBooking store_july 2 = Some stay_july \<and>
     findListing store_july (listing stay_july) = Some villa \<and>
     (guest stay_july = 10 \<or> host villa = 10) \<and>
     (status stay_july = Pending \<or> status stay_july = Confirmed)"
    by (simp add: validate_cancel_def findBooking_def findListing_def scenario_defs)
  have r: "validate_review \<lparr>r_rating = Val 3, r_comment = Some ''Fine''\<rparr> = [] \<and>
     findBooking store_done 2 = Some (stay_july\<lparr>status := Completed\<rparr>) \<and>
     guest (stay_july\<lparr>status := Completed\<rparr>) = 20 \<and>
     status (stay_july\<lparr>status := Completed\<rparr>) = Completed \<and>
     \<not> alreadyReviewed (stay_july\<lparr>status := Completed\<rparr>) \<and>
     checkIn (stay_july\<lparr>status := Completed\<rparr>) < startOfDay env_august"
    using past
    by (simp add: validate_review_def findBooking_def alreadyReviewed_def store_done_def
          stay_july_def)
  show ?thesis
    using past c r
      pre_save_runs_on_every_save [where b = stay_july and e = env_august and s = store_july
        and i = 2 and uid = 10 and cr = no_reason and l = villa]
      pre_save_runs_on_every_save [where b = "stay_july\<lparr>status := Completed\<rparr>"
        and e = env_august and s = store_done and i = 2 and uid = 20
        and rr = "\<lparr>r_rating = Val 3, r_comment = Some ''Fine''\<rparr>"]
    by blast
qed

section \<open>Order of the checks\<close>






section \<open>Cancellation and review of a stay that has begun\<close>

text \<open>
  The numbers of the specification's review scenario, on a day when the hook passes: five
  stars on an average of 4.8 over 24 reviews give 601/125 = 4.808 over 25 reviews, and
  the review is stored with the clock's time.
\<close>

lemma review_rollup_example:
  "\<exists>b' s'. submit_review env_june store_done 20 (Some 2) five_stars = (Inr b', s') \<and>
      review b' = Some \<lparr>rating = 5, comment = [], reviewDate = now env_june\<rparr> \<and>
      map listing_rating (listings s') = [\<lparr>average = 601 / 125, count = 25\<rparr>] \<and>
      (601 / 125 :: rat) = 4.808"
  by (simp add: handler_defs scenario_defs)

text \<open>
  C3. The claim holds only while the hook passes. A completed stay is normally one whose
  check-in day lies in the past, and there the save inside the review handler is refused:
  on 2025-08-01 the guest of the completed stay of 2025-07-01 sends a valid first review
  of five stars and receives the server error; no review is stored and the listing keeps
  its average and count.
\<close>

theorem review_of_past_stay_fails:
  "validate_review five_stars = [] \<and>
   findBooking store_done 2 = Some (stay_july\<lparr>status := Completed\<rparr>) \<and>
   guest (stay_july\<lparr>status := Completed\<rparr>) = 20 \<and>
   \<not> alreadyReviewed (stay_july\<lparr>status := Completed\<rparr>) \<and>
   submit_review env_august store_done 20 (Some 2) five_stars =
     (Inl (ServerError ''Server error while adding review''), store_done)"
  by (simp add: handler_defs scenario_defs)

text \<open>
  C5. Cancelling a cancelled or completed booking fails, and cancelling a pending or
  confirmed one succeeds while the hook passes. Once the check-in day has passed the save
  inside the cancellation handler is refused: on 2025-08-01 the guest of the confirmed
  stay of 2025-07-01 cancels it and receives the server error; the booking stays
  confirmed.
\<close>

theorem cancel_of_past_stay_fails:
  "findBooking store_july 2 = Some stay_july \<and> guest stay_july = 20 \<and>
   status stay_july = Confirmed \<and>
   cancel_booking env_june store_july 20 (Some 2) no_reason =
     (Inr (stay_july\<lparr>status := Cancelled, cancellationReason := Some ''No reason provided''\<rparr>),
      store_july\<lparr>bookings :=
        [stay_july\<lparr>status := Cancelled, cancellationReason := Some ''No reason provided''\<rparr>]\<rparr>) \<and>
   cancel_booking env_august store_july 20 (Some 2) no_reason =
     (Inl (ServerError ''Server error while cancelling booking''), store_july)"
  by (simp add: handler_defs scenario_defs)

end
